theory Spec2Isabelle
  imports Main "HOL-Library.Word"
begin

unbundle bit_operations_syntax

section \<open>Data model of the address-value engine\<close>

text \<open>
  The Go sources represent a segment (an \<open>AddressDivision\<close>) by its lower value, its upper
  value, an optional per-segment prefix length and the address type that fixes its width
  (\<open>getAddrType\<close>, \<open>GetBitCount\<close>, \<open>GetMaxValue\<close>); a section by its list of segments, its
  address type, its optional section prefix length and the derived \<open>isMultiple\<close> flag; and
  an address by an optional section (\<open>nil\<close> for a default-constructed address) and a zone.
  \<open>SegInt\<close> is an unsigned machine integer; it is modelled by \<open>nat\<close>, and the one place
  where the code shifts it left writes the wrap-around out.  \<open>BitCount\<close> is signed (the code
  compares it with \<open>0\<close>), so it is \<open>int\<close>; a \<open>PrefixLen\<close> is a nullable pointer to one.
\<close>

type_synonym SegInt = nat
type_synonym BitCount = int
type_synonym PrefixLen = "int option"

datatype addrType = zeroType | ipv4Type | ipv6Type | macType

record AddressDivision =
  segmentValue :: SegInt
  upperSegmentValue :: SegInt
  divisionPrefixLength :: PrefixLen
  divAddrType :: addrType

record IPAddressSection =
  divisions :: "AddressDivision list"
  sectAddrType :: addrType
  prefixLength :: PrefixLen
  isMultiple :: bool

record Address =
  addrSection :: "IPAddressSection option"
  zone :: string

text \<open>Run-time panics of Go are values of the model.\<close>

datatype panic = NilFunctionCall | IndexOutOfRange | NilPointerDereference

text \<open>\<open>macSegmentValues.isMultiple\<close> (macsegment.go): \<open>seg.value != seg.upperValue\<close>.\<close>

definition segIsMultiple :: "AddressDivision \<Rightarrow> bool" where
  "segIsMultiple seg = (segmentValue seg \<noteq> upperSegmentValue seg)"

text \<open>
  \<open>creator.createSegment(value, value2, segmentPrefixLength)\<close>: the creator is an interface
  whose implementations are declared outside the sources at hand; a creator is identified
  by the address type of the segments it makes, and the segment it returns stores the three
  arguments.
\<close>

definition createSegment ::
  "addrType \<Rightarrow> SegInt \<Rightarrow> SegInt \<Rightarrow> PrefixLen \<Rightarrow> AddressDivision" where
  "createSegment creator v v2 p =
     \<lparr>segmentValue = v, upperSegmentValue = v2, divisionPrefixLength = p,
      divAddrType = creator\<rparr>"

section \<open>Range ingestion: \<open>createSegments\<close> (ipsection.go)\<close>

text \<open>
  The loop of \<open>createSegments\<close> over \<open>segmentIndex\<close>, with the segments built so far and the
  \<open>isMultiple\<close> flag as its state.  The two providers are nullable function values; calling
  a \<open>nil\<close> provider panics.  The helper \<open>getSegmentPrefixLength\<close> is not part of the sources
  at hand and is a parameter \<open>gspl\<close>, applied as the code applies it.
\<close>

fun createSegmentsLoop ::
  "(BitCount \<Rightarrow> PrefixLen \<Rightarrow> nat \<Rightarrow> PrefixLen) \<Rightarrow> addrType \<Rightarrow> (nat \<Rightarrow> SegInt) option \<Rightarrow>
   (nat \<Rightarrow> SegInt) option \<Rightarrow> BitCount \<Rightarrow> PrefixLen \<Rightarrow> nat \<Rightarrow> nat \<Rightarrow>
   AddressDivision list \<Rightarrow> bool \<Rightarrow> panic + (AddressDivision list \<times> bool)" where
  "createSegmentsLoop gspl creator lowerValueProvider upperValueProvider bitsPerSegment pl 0
       segmentIndex segments isMult = Inr (segments, isMult)"
| "createSegmentsLoop gspl creator lowerValueProvider upperValueProvider bitsPerSegment pl (Suc n)
       segmentIndex segments isMult =
     (let segmentPrefixLength = gspl bitsPerSegment pl segmentIndex in
      case lowerValueProvider of
        None \<Rightarrow>
          (case upperValueProvider of
             None \<Rightarrow> Inl NilFunctionCall
           | Some upper \<Rightarrow>
               (let v = upper segmentIndex in
                createSegmentsLoop gspl creator lowerValueProvider upperValueProvider bitsPerSegment pl n
                  (Suc segmentIndex)
                  (segments @ [createSegment creator v v segmentPrefixLength]) isMult))
      | Some lower \<Rightarrow>
          (let v = lower segmentIndex in
           case upperValueProvider of
             Some upper \<Rightarrow>
               (let v2 = upper segmentIndex in
                createSegmentsLoop gspl creator lowerValueProvider upperValueProvider bitsPerSegment pl n
                  (Suc segmentIndex)
                  (segments @ [createSegment creator v v2 segmentPrefixLength])
                  (if \<not> isMult \<and> v2 \<noteq> v then True else isMult))
           | None \<Rightarrow>
               createSegmentsLoop gspl creator lowerValueProvider upperValueProvider bitsPerSegment pl n
                 (Suc segmentIndex)
                 (segments @ [createSegment creator v v segmentPrefixLength]) isMult))"

definition createSegments ::
  "(BitCount \<Rightarrow> PrefixLen \<Rightarrow> nat \<Rightarrow> PrefixLen) \<Rightarrow> (nat \<Rightarrow> SegInt) option \<Rightarrow>
   (nat \<Rightarrow> SegInt) option \<Rightarrow> nat \<Rightarrow> BitCount \<Rightarrow> addrType \<Rightarrow> PrefixLen \<Rightarrow>
   panic + (AddressDivision list \<times> bool)" where
  "createSegments gspl lowerValueProvider upperValueProvider segmentCount bitsPerSegment creator
       pl =
     createSegmentsLoop gspl creator lowerValueProvider upperValueProvider bitsPerSegment pl
       segmentCount 0 [] False"

section \<open>Family constants and prefix-mask classification of a section\<close>

text \<open>
  Bits per segment and the largest segment value, from the constants of the sources
  (\<open>IPv4BitsPerSegment = 8\<close>, \<open>IPv4MaxValuePerSegment = 0xff\<close>, \<open>IPv6BitsPerSegment = 16\<close>,
  \<open>IPv6MaxValuePerSegment = 0xffff\<close>; a MAC segment answers with the IPv4 constant and
  \<open>0xff\<close>).  A section of the zero type has no segments.
\<close>

fun getBitsPerSegment :: "addrType \<Rightarrow> BitCount" where
  "getBitsPerSegment ipv4Type = 8"
| "getBitsPerSegment ipv6Type = 16"
| "getBitsPerSegment macType = 8"
| "getBitsPerSegment zeroType = 0"

fun getMaxValue :: "addrType \<Rightarrow> SegInt" where
  "getMaxValue ipv4Type = 0xff"
| "getMaxValue ipv6Type = 0xffff"
| "getMaxValue macType = 0xff"
| "getMaxValue zeroType = 0"

definition GetSegmentCount :: "IPAddressSection \<Rightarrow> nat" where
  "GetSegmentCount sect = length (divisions sect)"

definition GetBitCount :: "IPAddressSection \<Rightarrow> BitCount" where
  "GetBitCount sect = int (GetSegmentCount sect) * getBitsPerSegment (sectAddrType sect)"

text \<open>
  The local variables of \<open>checkForPrefixMask\<close> (ipsection.go).  The loop returns \<open>None\<close>
  where the code leaves by a bare \<open>return\<close>, with both results still \<open>nil\<close>.  The
  per-segment classifier \<open>seg.checkForPrefixMask()\<close> and \<open>getNetworkPrefixLength\<close> are not
  part of the sources at hand; they are the parameters \<open>segCheck\<close> and \<open>gnpl\<close>.  The
  largest segment value and the bits per segment are those of the first segment, the total
  bit count is the section's.
\<close>

record maskCheckState =
  checkingNetworkFront :: bool
  checkingHostFront :: bool
  checkingNetworkBack :: bool
  checkingHostBack :: bool
  prefixedSeg :: nat
  prefixedSegPrefixLen :: BitCount

fun checkForPrefixMaskLoop ::
  "(AddressDivision \<Rightarrow> PrefixLen \<times> PrefixLen) \<Rightarrow> SegInt \<Rightarrow> AddressDivision list \<Rightarrow> nat \<Rightarrow>
   maskCheckState \<Rightarrow> maskCheckState option" where
  "checkForPrefixMaskLoop segCheck maxVal [] i st = Some st"
| "checkForPrefixMaskLoop segCheck maxVal (seg # segs) i st =
     (let val = segmentValue seg in
      if val = 0 then
        (if checkingNetworkFront st then
           checkForPrefixMaskLoop segCheck maxVal segs (Suc i)
             (st\<lparr>prefixedSeg := i, checkingNetworkFront := False, checkingNetworkBack := True,
                 checkingHostBack := False\<rparr>)
         else if \<not> checkingHostFront st \<and> \<not> checkingNetworkBack st then None
         else checkForPrefixMaskLoop segCheck maxVal segs (Suc i)
                (st\<lparr>checkingHostBack := False\<rparr>))
      else if val = maxVal then
        (if checkingHostFront st then
           checkForPrefixMaskLoop segCheck maxVal segs (Suc i)
             (st\<lparr>prefixedSeg := i, checkingHostFront := False, checkingHostBack := True,
                 checkingNetworkBack := False\<rparr>)
         else if \<not> checkingHostBack st \<and> \<not> checkingNetworkFront st then None
         else checkForPrefixMaskLoop segCheck maxVal segs (Suc i)
                (st\<lparr>checkingNetworkBack := False\<rparr>))
      else
        (case segCheck seg of
           (Some segNetworkMaskLen, _) \<Rightarrow>
             (if checkingNetworkFront st then
                checkForPrefixMaskLoop segCheck maxVal segs (Suc i)
                  (st\<lparr>prefixedSegPrefixLen := segNetworkMaskLen, checkingNetworkBack := True,
                      prefixedSeg := i, checkingNetworkFront := False,
                      checkingHostFront := False\<rparr>)
              else None)
         | (None, Some segHostMaskLen) \<Rightarrow>
             (if checkingHostFront st then
                checkForPrefixMaskLoop segCheck maxVal segs (Suc i)
                  (st\<lparr>prefixedSegPrefixLen := segHostMaskLen, checkingHostBack := True,
                      prefixedSeg := i, checkingNetworkFront := False,
                      checkingHostFront := False\<rparr>)
              else None)
         | (None, None) \<Rightarrow> None))"

definition checkForPrefixMask ::
  "(AddressDivision \<Rightarrow> PrefixLen \<times> PrefixLen) \<Rightarrow> (BitCount \<Rightarrow> BitCount \<Rightarrow> nat \<Rightarrow> PrefixLen) \<Rightarrow>
   IPAddressSection \<Rightarrow> PrefixLen \<times> PrefixLen" where
  "checkForPrefixMask segCheck gnpl sect =
     (if GetSegmentCount sect = 0 then (None, None)
      else
        (case checkForPrefixMaskLoop segCheck (getMaxValue (divAddrType (divisions sect ! 0)))
                (divisions sect) 0
                \<lparr>checkingNetworkFront = True, checkingHostFront = True,
                 checkingNetworkBack = False, checkingHostBack = False,
                 prefixedSeg = 0, prefixedSegPrefixLen = 0\<rparr> of
           None \<Rightarrow> (None, None)
         | Some st \<Rightarrow>
             (if checkingNetworkFront st then (Some (GetBitCount sect), Some 0)
              else if checkingHostFront st then (Some 0, Some (GetBitCount sect))
              else if checkingNetworkBack st then
                (gnpl (getBitsPerSegment (divAddrType (divisions sect ! 0)))
                   (prefixedSegPrefixLen st) (prefixedSeg st), None)
              else if checkingHostBack st then
                (None, gnpl (getBitsPerSegment (divAddrType (divisions sect ! 0)))
                   (prefixedSegPrefixLen st) (prefixedSeg st))
              else (None, None))))"

section \<open>Prefix assignment: \<open>assignPrefix\<close> (ipsection.go)\<close>

fun getBytesPerSegment :: "addrType \<Rightarrow> nat" where
  "getBytesPerSegment ipv4Type = 1"
| "getBytesPerSegment ipv6Type = 2"
| "getBytesPerSegment macType = 1"
| "getBytesPerSegment zeroType = 0"

text \<open>
  \<open>assignPrefix\<close>, \<open>isPrefixSubnetSegs\<close> and \<open>applyPrefixToSegments\<close> are in ipsection.go; the
  functions they call are not part of the sources at hand and are collected as parameters:
  \<open>isPrefixSubnet\<close> (lower and upper value providers, segment count, bytes and bits per
  segment, largest segment value, prefix length, \<open>fullRangeOnly\<close>), \<open>getNetworkSegmentIndex\<close>,
  \<open>getPrefixedSegmentPrefixLength\<close>, and the two segment producers.
\<close>

record prefixHelpers =
  isPrefixSubnet ::
    "(nat \<Rightarrow> SegInt) \<Rightarrow> (nat \<Rightarrow> SegInt) \<Rightarrow> nat \<Rightarrow> nat \<Rightarrow> BitCount \<Rightarrow> SegInt \<Rightarrow> BitCount \<Rightarrow> bool \<Rightarrow> bool"
  getNetworkSegmentIndex :: "BitCount \<Rightarrow> nat \<Rightarrow> BitCount \<Rightarrow> int"
  getPrefixedSegmentPrefixLength :: "BitCount \<Rightarrow> BitCount \<Rightarrow> int \<Rightarrow> PrefixLen"
  toPrefixedNetworkDivision :: "AddressDivision \<Rightarrow> PrefixLen \<Rightarrow> AddressDivision"
  toPrefixedDivision :: "AddressDivision \<Rightarrow> PrefixLen \<Rightarrow> AddressDivision"

text \<open>
  \<open>isPrefixSubnetSegs\<close>: false on no segments, else \<open>isPrefixSubnet\<close> on the segments' lower
  and upper values, with byte count, bit count and largest value taken from the first
  segment.
\<close>

definition isPrefixSubnetSegs ::
  "prefixHelpers \<Rightarrow> AddressDivision list \<Rightarrow> BitCount \<Rightarrow> bool \<Rightarrow> bool" where
  "isPrefixSubnetSegs H sectionSegments networkPrefixLength fullRangeOnly =
     (let segmentCount = length sectionSegments in
      if segmentCount = 0 then False
      else let t = divAddrType (sectionSegments ! 0) in
           isPrefixSubnet H
             (\<lambda>segmentIndex. segmentValue (sectionSegments ! segmentIndex))
             (\<lambda>segmentIndex. upperSegmentValue (sectionSegments ! segmentIndex))
             segmentCount (getBytesPerSegment t) (getBitsPerSegment t) (getMaxValue t)
             networkPrefixLength fullRangeOnly)"

text \<open>
  The loop of \<open>applyPrefixToSegments\<close>: \<open>n\<close> counts the iterations that remain until
  \<open>i\<close> reaches \<open>len(segments)\<close>.  Writing \<open>segments[i]\<close> at a negative index panics.
\<close>

primrec applyPrefixToSegmentsLoop ::
  "prefixHelpers \<Rightarrow> BitCount \<Rightarrow> BitCount \<Rightarrow> (AddressDivision \<Rightarrow> PrefixLen \<Rightarrow> AddressDivision) \<Rightarrow>
   nat \<Rightarrow> int \<Rightarrow> AddressDivision list \<Rightarrow> panic + AddressDivision list" where
  "applyPrefixToSegmentsLoop H sectionPrefixBits segmentBitCount segProducer 0 i segments =
     Inr segments"
| "applyPrefixToSegmentsLoop H sectionPrefixBits segmentBitCount segProducer (Suc n) i segments =
     (case getPrefixedSegmentPrefixLength H segmentBitCount sectionPrefixBits i of
        None \<Rightarrow>
          applyPrefixToSegmentsLoop H sectionPrefixBits segmentBitCount segProducer n (i + 1)
            segments
      | Some pref \<Rightarrow>
          (if i < 0 then Inl IndexOutOfRange
           else applyPrefixToSegmentsLoop H sectionPrefixBits segmentBitCount segProducer n
                  (i + 1) (segments[nat i := segProducer (segments ! nat i) (Some pref)])))"

definition applyPrefixToSegments ::
  "prefixHelpers \<Rightarrow> BitCount \<Rightarrow> AddressDivision list \<Rightarrow> BitCount \<Rightarrow> nat \<Rightarrow>
   (AddressDivision \<Rightarrow> PrefixLen \<Rightarrow> AddressDivision) \<Rightarrow> panic + AddressDivision list" where
  "applyPrefixToSegments H sectionPrefixBits segments segmentBitCount segmentByteCount segProducer =
     (let i = (if sectionPrefixBits \<noteq> 0
               then getNetworkSegmentIndex H sectionPrefixBits segmentByteCount segmentBitCount
               else 0)
      in applyPrefixToSegmentsLoop H sectionPrefixBits segmentBitCount segProducer
           (nat (int (length segments) - i)) i segments)"

text \<open>
  \<open>assignPrefix(prefixLength, segments, res, singleOnly, boundaryBits, maxBits)\<close>.  The slice
  \<open>segments\<close> is the segment array of \<open>res\<close>, so the model takes \<open>res\<close> and returns it
  updated.  \<open>prefLen\<close> is the value the code works with and \<open>prefixLength\<close> the pointer it
  stores at the end; the first branch (\<open>prefLen < 0\<close>) changes only \<open>prefLen\<close>, the second
  changes both.  \<open>maxBits\<close> is not used by the body.
\<close>

definition assignPrefix ::
  "prefixHelpers \<Rightarrow> PrefixLen \<Rightarrow> IPAddressSection \<Rightarrow> bool \<Rightarrow> BitCount \<Rightarrow> BitCount \<Rightarrow>
   panic + IPAddressSection" where
  "assignPrefix H prefixLength0 res singleOnly boundaryBits maxBits =
     (case prefixLength0 of
        None \<Rightarrow> Inl NilPointerDereference
      | Some p \<Rightarrow>
          (let (prefLen, prefixLength) =
                 (if p < 0 then (0, Some p)
                  else if p > boundaryBits then (boundaryBits, Some boundaryBits)
                  else (p, Some p));
               segments = divisions res;
               segLen = length segments
           in if segLen > 0 then
                (let (prefLen, prefixLength) =
                       (case IPAddressSection.prefixLength res of
                          None \<Rightarrow> (prefLen, prefixLength)
                        | Some sp \<Rightarrow> if sp < prefLen then (sp, Some sp)
                                     else (prefLen, prefixLength));
                     applyPrefixSubnet =
                       (\<not> singleOnly \<and>
                        isPrefixSubnetSegs H segments prefLen False);
                     segProducer = (if applyPrefixSubnet then toPrefixedNetworkDivision H
                                    else toPrefixedDivision H)
                 in case applyPrefixToSegments H prefLen segments
                           (getBitsPerSegment (sectAddrType res))
                           (getBytesPerSegment (sectAddrType res)) segProducer of
                      Inl e \<Rightarrow> Inl e
                    | Inr segments' \<Rightarrow>
                        Inr (res\<lparr>divisions := segments',
                                isMultiple :=
                                  (if applyPrefixSubnet \<and> \<not> isMultiple res
                                   then segIsMultiple (segments' ! (segLen - 1))
                                   else isMultiple res),
                                prefixLength := prefixLength\<rparr>))
              else Inr (res\<lparr>prefixLength := prefixLength\<rparr>)))"

section \<open>Default-constructed addresses and the prefix block of an address\<close>

text \<open>
  \<open>initZeroIPv4\<close> (ipv4addr.go) and \<open>initZeroIPv6\<close>: four, respectively eight, copies of the
  zero segment, made into a section with no prefix length and then into an address with
  \<open>NoZone\<close>.
\<close>

definition NoZone :: string where
  "NoZone = ''''"

definition zeroIPv4 :: Address where
  "zeroIPv4 =
     (let seg0 = createSegment ipv4Type 0 0 None;
          segs = [seg0, seg0, seg0, seg0]
      in \<lparr>addrSection = Some \<lparr>divisions = segs, sectAddrType = ipv4Type, prefixLength = None,
                               isMultiple = False\<rparr>,
          zone = NoZone\<rparr>)"

definition zeroIPv6 :: Address where
  "zeroIPv6 =
     (let seg0 = createSegment ipv6Type 0 0 None;
          segs = [seg0, seg0, seg0, seg0, seg0, seg0, seg0, seg0]
      in \<lparr>addrSection = Some \<lparr>divisions = segs, sectAddrType = ipv6Type, prefixLength = None,
                               isMultiple = False\<rparr>,
          zone = NoZone\<rparr>)"

text \<open>\<open>(addr *IPv4Address) init()\<close> and \<open>(addr *IPv6Address) init()\<close>.\<close>

definition init_IPv4 :: "Address \<Rightarrow> Address" where
  "init_IPv4 addr = (if addrSection addr = None then zeroIPv4 else addr)"

definition init_IPv6 :: "Address \<Rightarrow> Address" where
  "init_IPv6 addr = (if addrSection addr = None then zeroIPv6 else addr)"

section \<open>Helpers that the sources call but do not contain\<close>

text \<open>
  The host mask of a segment of \<open>bits\<close> bits under a per-segment prefix length: the low
  \<open>bits - segPrefix\<close> bits set.
\<close>

definition segmentHostMask :: "BitCount \<Rightarrow> BitCount \<Rightarrow> SegInt" where
  "segmentHostMask bits segPrefix = 2 ^ nat (bits - segPrefix) - 1"

text \<open>
  Modelled from the spec: \<open>getPrefixedSegmentPrefixLength\<close> is missing from the sources.
  Section 3.2: per-segment prefix lengths are attached to and only to segments at and beyond
  the network/host boundary; section 3.1: a segment prefix lies in \<open>[0, bits]\<close> or is absent.
\<close>

definition getPrefixedSegmentPrefixLength_spec :: "BitCount \<Rightarrow> BitCount \<Rightarrow> int \<Rightarrow> PrefixLen" where
  "getPrefixedSegmentPrefixLength_spec bitsPerSegment prefixLen segmentIndex =
     (let d = prefixLen - segmentIndex * bitsPerSegment
      in if d \<le> 0 then Some 0 else if d \<le> bitsPerSegment then Some d else None)"

text \<open>
  Modelled from the spec: \<open>getNetworkSegmentIndex\<close> is missing from the sources.  It is the
  index of the segment that holds the last network bit, where the boundary of section 3.2
  falls.
\<close>

definition getNetworkSegmentIndex_spec :: "BitCount \<Rightarrow> nat \<Rightarrow> BitCount \<Rightarrow> int" where
  "getNetworkSegmentIndex_spec networkPrefixLength bytesPerSegment bitsPerSegment =
     (networkPrefixLength - 1) div bitsPerSegment"

text \<open>
  Modelled from the spec: \<open>isPrefixSubnet\<close> is missing from the sources.  Sections 3.2 and 4.3
  (step 3): every host-side segment is full-range (\<open>low = 0\<close>, \<open>upper = max\<close>), and in the
  segment that contains the boundary the network bits are fixed and the host bits span
  \<open>[0, host_max]\<close>.
\<close>

definition isPrefixSubnet_spec ::
  "(nat \<Rightarrow> SegInt) \<Rightarrow> (nat \<Rightarrow> SegInt) \<Rightarrow> nat \<Rightarrow> nat \<Rightarrow> BitCount \<Rightarrow> SegInt \<Rightarrow> BitCount \<Rightarrow> bool \<Rightarrow> bool" where
  "isPrefixSubnet_spec lower upper segmentCount bytesPerSegment bitsPerSegment maxVal prefixLen
       fullRangeOnly =
     list_all
       (\<lambda>k. let d = prefixLen - int k * bitsPerSegment
            in if d \<le> 0 then lower k = 0 \<and> upper k = maxVal
               else if d < bitsPerSegment then
                 (let hm = segmentHostMask bitsPerSegment d
                  in lower k AND hm = 0 \<and> upper k AND hm = hm \<and>
                     lower k div (hm + 1) = upper k div (hm + 1))
               else True)
       [0..<segmentCount]"

text \<open>
  Modelled from the spec: \<open>toPrefixedDivision\<close> is missing from the sources.  Section 4.3
  (step 5): attach the per-segment prefix where it falls, without forcing host bits.
\<close>

definition toPrefixedDivision_spec :: "AddressDivision \<Rightarrow> PrefixLen \<Rightarrow> AddressDivision" where
  "toPrefixedDivision_spec seg pref = seg\<lparr>divisionPrefixLength := pref\<rparr>"

text \<open>
  Modelled from the spec: \<open>toPrefixedNetworkDivision\<close> is missing from the sources.  Section
  4.3 (step 4) and 3.2: the network-value segment keeps the network bits, lets the host bits
  span \<open>[0, host_max]\<close>, and carries the per-segment prefix.
\<close>

definition toPrefixedNetworkDivision_spec :: "AddressDivision \<Rightarrow> PrefixLen \<Rightarrow> AddressDivision" where
  "toPrefixedNetworkDivision_spec seg pref =
     (case pref of
        None \<Rightarrow> seg
      | Some sp \<Rightarrow>
          (let hm = segmentHostMask (getBitsPerSegment (divAddrType seg)) sp
           in seg\<lparr>segmentValue := (segmentValue seg div (hm + 1)) * (hm + 1),
                  upperSegmentValue := upperSegmentValue seg OR hm,
                  divisionPrefixLength := pref\<rparr>))"

definition specHelpers :: prefixHelpers where
  "specHelpers =
     \<lparr>isPrefixSubnet = isPrefixSubnet_spec,
      getNetworkSegmentIndex = getNetworkSegmentIndex_spec,
      getPrefixedSegmentPrefixLength = getPrefixedSegmentPrefixLength_spec,
      toPrefixedNetworkDivision = toPrefixedNetworkDivision_spec,
      toPrefixedDivision = toPrefixedDivision_spec\<rparr>"

text \<open>
  Modelled from the spec: \<open>IsPrefixBlock\<close> is missing from the sources.  Section 3.2: a
  section with prefix length \<open>p\<close> is a prefix block when every bit of index \<open>\<ge> p\<close> is free.
\<close>

definition IsPrefixBlock :: "IPAddressSection \<Rightarrow> bool" where
  "IsPrefixBlock sect =
     (case prefixLength sect of
        None \<Rightarrow> False
      | Some p \<Rightarrow>
          divisions sect \<noteq> [] \<and>
          isPrefixSubnet_spec
            (\<lambda>k. segmentValue (divisions sect ! k)) (\<lambda>k. upperSegmentValue (divisions sect ! k))
            (length (divisions sect)) (getBytesPerSegment (sectAddrType sect))
            (getBitsPerSegment (sectAddrType sect)) (getMaxValue (sectAddrType sect)) p True)"

text \<open>
  The number of values of a segment is \<open>upperValue - value + 1\<close> (\<open>getCount\<close>, macsegment.go).
  Modelled from the spec: the section's \<open>GetCount\<close> is missing from the sources.  Section 4.5:
  \<open>count()\<close> is the number of single-valued addresses in the section's range, the product of
  the segments' counts.
\<close>

definition segGetCount :: "AddressDivision \<Rightarrow> nat" where
  "segGetCount seg = upperSegmentValue seg - segmentValue seg + 1"

definition GetCount :: "IPAddressSection \<Rightarrow> nat" where
  "GetCount sect = prod_list (map segGetCount (divisions sect))"

text \<open>
  Modelled from the spec: the internal \<open>toPrefixBlock\<close> that \<open>ToPrefixBlock\<close> calls is missing
  from the sources.  Glossary and section 3.2: the prefix block of a section with prefix
  length \<open>p\<close> keeps the network bits and frees every bit of index \<open>\<ge> p\<close>; a section without
  prefix length is unchanged.
\<close>

definition toPrefixBlock :: "Address \<Rightarrow> Address" where
  "toPrefixBlock addr =
     (case addrSection addr of
        None \<Rightarrow> addr
      | Some sect \<Rightarrow>
          (case prefixLength sect of
             None \<Rightarrow> addr
           | Some p \<Rightarrow>
               (case applyPrefixToSegments specHelpers p (divisions sect)
                       (getBitsPerSegment (sectAddrType sect))
                       (getBytesPerSegment (sectAddrType sect))
                       toPrefixedNetworkDivision_spec of
                  Inl e \<Rightarrow> addr
                | Inr segs \<Rightarrow>
                    addr\<lparr>addrSection :=
                           Some (sect\<lparr>divisions := segs,
                                      isMultiple := list_ex segIsMultiple segs\<rparr>)\<rparr>)))"

text \<open>\<open>(addr *IPv4Address) ToPrefixBlock()\<close> (ipv4addr.go): \<open>addr.init().toPrefixBlock()\<close>.\<close>

definition ToPrefixBlock_IPv4 :: "Address \<Rightarrow> Address" where
  "ToPrefixBlock_IPv4 addr = toPrefixBlock (init_IPv4 addr)"

text \<open>The lower and upper value of each segment of a section, in order.\<close>

definition segmentRanges :: "IPAddressSection \<Rightarrow> (SegInt \<times> SegInt) list" where
  "segmentRanges sect = map (\<lambda>seg. (segmentValue seg, upperSegmentValue seg)) (divisions sect)"

section \<open>Byte-array ingestion: \<open>toSegments\<close> (ipsection.go)\<close>

text \<open>
  The errors of the library, with the message key each one carries in the code, and Go's
  run-time panics.
\<close>

datatype error =
    AddressValueException string int
  | IncompatibleAddressException string
  | SizeMismatchException string
  | PrefixLenException string BitCount
  | Panic panic

type_synonym byte = "8 word"

text \<open>
  \<open>value <<= 8; value |= b\<close> on a \<open>SegInt\<close>.  The declaration of \<open>SegInt\<close> is outside the
  sources at hand; its width in bits is the parameter \<open>w\<close>, and the shift wraps at it.
\<close>

definition shiftInByte :: "nat \<Rightarrow> SegInt \<Rightarrow> nat \<Rightarrow> SegInt" where
  "shiftInByte w v b = take_bit w (push_bit 8 v) OR b"

text \<open>The loop \<open>for ; j < upper; j++ { value <<= 8; value |= 0xff }\<close>, by its trip count.\<close>

primrec fillOnes :: "nat \<Rightarrow> nat \<Rightarrow> SegInt \<Rightarrow> SegInt" where
  "fillOnes w 0 v = v"
| "fillOnes w (Suc c) v = fillOnes w c (shiftInByte w v 0xff)"

text \<open>
  The loop \<open>for ; j < k; j++\<close> that reads \<open>bytes[startIndex+j-missingBytes]\<close>, by its trip
  count; \<open>off\<close> is \<open>startIndex - missingBytes\<close>.  A read outside the array panics.
\<close>

primrec readBytes :: "nat \<Rightarrow> byte list \<Rightarrow> int \<Rightarrow> nat \<Rightarrow> nat \<Rightarrow> SegInt \<Rightarrow> panic + SegInt" where
  "readBytes w bytes off 0 j v = Inr v"
| "readBytes w bytes off (Suc c) j v =
     (let idx = off + int j
      in if idx < 0 \<or> int (length bytes) \<le> idx then Inl IndexOutOfRange
         else readBytes w bytes off c (Suc j) (shiftInByte w v (unat (bytes ! nat idx))))"

text \<open>The value of the segment that starts at byte position \<open>i\<close>: the body of the segment loop.\<close>

definition segmentValueFromBytes ::
  "nat \<Rightarrow> byte list \<Rightarrow> nat \<Rightarrow> int \<Rightarrow> nat \<Rightarrow> nat \<Rightarrow> panic + SegInt" where
  "segmentValueFromBytes w bytes startIndex missingBytes bytesPerSegment i =
     (let k = bytesPerSegment + i;
          off = int startIndex - missingBytes
      in if int i < missingBytes then
           (if length bytes \<le> startIndex then Inl IndexOutOfRange
            else if drop_bit 7 (bytes ! startIndex) = 0 then
              (let j = nat missingBytes in readBytes w bytes off (k - j) j 0)
            else
              (let upper = (if missingBytes < int k then nat missingBytes else k)
               in readBytes w bytes off (k - upper) upper (fillOnes w (upper - i) 0)))
         else readBytes w bytes off (k - i) i 0)"

text \<open>
  The segment loop.  \<open>segments\<close> is the array made by \<open>createSegmentArray(segmentCount)\<close>,
  whose entries are \<open>nil\<close> until written; the first argument after the parameters counts
  the entries not yet written, and writing \<open>segments[segmentIndex]\<close> when none is left
  panics, so the loop always ends.  \<open>getSegmentPrefixLength\<close> is the parameter \<open>gspl\<close>.
\<close>

primrec toSegmentsLoop ::
  "nat \<Rightarrow> (BitCount \<Rightarrow> PrefixLen \<Rightarrow> nat \<Rightarrow> PrefixLen) \<Rightarrow> byte list \<Rightarrow> nat \<Rightarrow> int \<Rightarrow> nat \<Rightarrow> BitCount \<Rightarrow>
   nat \<Rightarrow> addrType \<Rightarrow> PrefixLen \<Rightarrow> nat \<Rightarrow> nat \<Rightarrow> nat \<Rightarrow> AddressDivision option list \<Rightarrow>
   panic + AddressDivision option list" where
  "toSegmentsLoop w gspl bytes startIndex missingBytes bytesPerSegment bitsPerSegment
       expectedByteCount creator pl 0 i segmentIndex segments =
     (if i < expectedByteCount then Inl IndexOutOfRange else Inr segments)"
| "toSegmentsLoop w gspl bytes startIndex missingBytes bytesPerSegment bitsPerSegment
       expectedByteCount creator pl (Suc free) i segmentIndex segments =
     (if i < expectedByteCount then
        (let segmentPrefixLength = gspl bitsPerSegment pl segmentIndex
         in case segmentValueFromBytes w bytes startIndex missingBytes bytesPerSegment i of
              Inl e \<Rightarrow> Inl e
            | Inr v \<Rightarrow>
                toSegmentsLoop w gspl bytes startIndex missingBytes bytesPerSegment bitsPerSegment
                  expectedByteCount creator pl free (bytesPerSegment + i) (Suc segmentIndex)
                  (segments[segmentIndex := Some (createSegment creator v v segmentPrefixLength)]))
      else Inr segments)"

text \<open>
  The loop \<open>for startIndex < higherStartIndex { higherStartIndex--; ... }\<close> over the excess
  bytes below the last one, from the top down.
\<close>

primrec extensionLoop :: "byte list \<Rightarrow> byte \<Rightarrow> nat \<Rightarrow> error option" where
  "extensionLoop bytes expectedExtendedValue 0 = None"
| "extensionLoop bytes expectedExtendedValue (Suc higherStartIndex) =
     (if bytes ! higherStartIndex \<noteq> expectedExtendedValue
      then Some (AddressValueException ''ipaddress.error.exceeds.size''
                   (uint expectedExtendedValue))
      else extensionLoop bytes expectedExtendedValue higherStartIndex)"

definition toSegments ::
  "nat \<Rightarrow> (BitCount \<Rightarrow> PrefixLen \<Rightarrow> nat \<Rightarrow> PrefixLen) \<Rightarrow> byte list \<Rightarrow> nat \<Rightarrow> nat \<Rightarrow> BitCount \<Rightarrow>
   nat \<Rightarrow> addrType \<Rightarrow> PrefixLen \<Rightarrow> error + AddressDivision option list" where
  "toSegments w gspl bytes segmentCount bytesPerSegment bitsPerSegment expectedByteCount creator
       pl =
     (let byteLen = length bytes;
          missingBytes = int expectedByteCount - int byteLen;
          segs = (\<lambda>startIndex missingBytes.
                    case toSegmentsLoop w gspl bytes startIndex missingBytes bytesPerSegment
                           bitsPerSegment expectedByteCount creator pl segmentCount 0 0
                           (replicate segmentCount None) of
                      Inl p \<Rightarrow> Inl (Panic p)
                    | Inr segments \<Rightarrow> Inr segments)
      in if missingBytes < 0 then
           (let expectedStartIndex = byteLen - expectedByteCount;
                higherStartIndex = expectedStartIndex - 1;
                expectedExtendedValue = bytes ! higherStartIndex;
                signError =
                  (if expectedExtendedValue \<noteq> 0 then
                     (if byteLen \<le> expectedStartIndex then Some (Panic IndexOutOfRange)
                      else
                        (let mostSignificantBit = drop_bit 7 (bytes ! expectedStartIndex)
                         in if mostSignificantBit \<noteq> 0 then
                              (if expectedExtendedValue \<noteq> 0xff
                               then Some (AddressValueException ''ipaddress.error.exceeds.size''
                                            (uint expectedExtendedValue))
                               else None)
                            else Some (AddressValueException ''ipaddress.error.exceeds.size''
                                         (uint expectedExtendedValue))))
                   else None)
            in case signError of
                 Some e \<Rightarrow> Inl e
               | None \<Rightarrow>
                   (case extensionLoop bytes expectedExtendedValue higherStartIndex of
                      Some e \<Rightarrow> Inl e
                    | None \<Rightarrow> segs expectedStartIndex 0))
         else segs 0 missingBytes)"

text \<open>
  The claim's condition on the excess leading bytes, in the spec's words (section 6.1): the
  first \<open>n\<close> bytes are a legal sign extension when they are all \<open>0x00\<close>, or all \<open>0xff\<close> with
  the most significant bit of the first retained byte set.
\<close>

definition legalSignExtension :: "byte list \<Rightarrow> nat \<Rightarrow> bool" where
  "legalSignExtension bytes n =
     ((\<forall>b \<in> set (take n bytes). b = 0) \<or>
      ((\<forall>b \<in> set (take n bytes). b = 0xff) \<and> bit (bytes ! n) 7))"

section \<open>The cached address provider (exported-\<open>IPType\<close> copy)\<close>

text \<open>
  \<open>cachedAddressProvider\<close> holds a nullable creator function and the two cached addresses.
  \<open>callCreator\<close> is Go's call of a function value: calling \<open>nil\<close> panics before any body
  runs.
\<close>

record cachedAddressProvider =
  addressCreator :: "(unit \<Rightarrow> Address option \<times> Address option) option"
  address :: "Address option"
  hostAddress :: "Address option"

definition callCreator :: "(unit \<Rightarrow> 'a) option \<Rightarrow> panic + 'a" where
  "callCreator f = (case f of None \<Rightarrow> Inl NilFunctionCall | Some g \<Rightarrow> Inr (g ()))"

text \<open>
  \<open>getCachedAddresses\<close>: the guard is \<open>cached.addressCreator == nil\<close>; inside it the creator
  is called and both results are stored; otherwise the named results stay \<open>nil\<close>.
\<close>

definition getCachedAddresses ::
  "cachedAddressProvider \<Rightarrow>
   panic + ((Address option \<times> Address option) \<times> cachedAddressProvider)" where
  "getCachedAddresses cached =
     (if addressCreator cached = None then
        (case callCreator (addressCreator cached) of
           Inl e \<Rightarrow> Inl e
         | Inr (a, h) \<Rightarrow> Inr ((a, h), cached\<lparr>address := a, hostAddress := h\<rparr>))
      else Inr ((None, None), cached))"

text \<open>\<open>getProviderAddress\<close>: the cached address, or else the first result of the call above.\<close>

definition getProviderAddress ::
  "cachedAddressProvider \<Rightarrow> panic + (Address option \<times> cachedAddressProvider)" where
  "getProviderAddress cached =
     (case address cached of
        Some a \<Rightarrow> Inr (Some a, cached)
      | None \<Rightarrow>
          (case getCachedAddresses cached of
             Inl e \<Rightarrow> Inl e
           | Inr ((a, h), cached') \<Rightarrow> Inr (a, cached')))"

section \<open>Theorems\<close>

subsection \<open>Range ingestion\<close>

lemma createSegmentsLoop_isMultiple:
  "createSegmentsLoop gspl cr lo up bits pl n i segs m = Inr (segs', m') \<Longrightarrow>
   m = (\<exists>s \<in> set segs. segIsMultiple s) \<Longrightarrow>
   m' = (\<exists>s \<in> set segs'. segIsMultiple s) \<and> length segs' = length segs + n"
proof (induction n arbitrary: i segs m)
  case 0
  then show ?case by auto
next
  case (Suc n)
  show ?case
  proof (cases lo)
    case None
    note lo = this
    show ?thesis
    proof (cases up)
      case None
      with lo Suc.prems(1) show ?thesis by simp
    next
      case (Some u)
      with lo Suc.prems(1) have
        "createSegmentsLoop gspl cr lo up bits pl n (Suc i)
           (segs @ [createSegment cr (u i) (u i) (gspl bits pl i)]) m = Inr (segs', m')"
        by (simp add: Let_def)
      moreover have "m = (\<exists>s \<in> set (segs @ [createSegment cr (u i) (u i) (gspl bits pl i)]).
                           segIsMultiple s)"
        using Suc.prems(2) by (auto simp: segIsMultiple_def createSegment_def)
      ultimately show ?thesis using Suc.IH by fastforce
    qed
  next
    case (Some l)
    note lo = this
    show ?thesis
    proof (cases up)
      case None
      with lo Suc.prems(1) have
        "createSegmentsLoop gspl cr lo up bits pl n (Suc i)
           (segs @ [createSegment cr (l i) (l i) (gspl bits pl i)]) m = Inr (segs', m')"
        by (simp add: Let_def)
      moreover have "m = (\<exists>s \<in> set (segs @ [createSegment cr (l i) (l i) (gspl bits pl i)]).
                           segIsMultiple s)"
        using Suc.prems(2) by (auto simp: segIsMultiple_def createSegment_def)
      ultimately show ?thesis using Suc.IH by fastforce
    next
      case (Some u)
      let ?m = "if \<not> m \<and> u i \<noteq> l i then True else m"
      from lo Some Suc.prems(1) have
        "createSegmentsLoop gspl cr lo up bits pl n (Suc i)
           (segs @ [createSegment cr (l i) (u i) (gspl bits pl i)]) ?m = Inr (segs', m')"
        by (simp add: Let_def)
      moreover have "?m = (\<exists>s \<in> set (segs @ [createSegment cr (l i) (u i) (gspl bits pl i)]).
                           segIsMultiple s)"
        using Suc.prems(2) by (auto simp: segIsMultiple_def createSegment_def)
      ultimately show ?thesis using Suc.IH by fastforce
    qed
  qed
qed

lemma createSegmentsLoop_single:
  "up = None \<or> lo = None \<Longrightarrow>
   createSegmentsLoop gspl cr lo up bits pl n i segs m = Inr (segs', m') \<Longrightarrow>
   m' = m \<and> (\<forall>s \<in> set segs' - set segs. \<not> segIsMultiple s)"
proof (induction n arbitrary: i segs)
  case 0
  then show ?case by auto
next
  case (Suc n)
  show ?case
  proof (cases lo)
    case None
    note lo = this
    show ?thesis
    proof (cases up)
      case None
      with lo Suc.prems show ?thesis by simp
    next
      case (Some u)
      with lo Suc.prems have
        "createSegmentsLoop gspl cr lo up bits pl n (Suc i)
           (segs @ [createSegment cr (u i) (u i) (gspl bits pl i)]) m = Inr (segs', m')"
        by (simp add: Let_def)
      from Suc.IH [OF Suc.prems(1) this] show ?thesis
        by (auto simp: segIsMultiple_def createSegment_def)
    qed
  next
    case (Some l)
    with Suc.prems(1) have up: "up = None" by simp
    with Some Suc.prems have
      "createSegmentsLoop gspl cr lo up bits pl n (Suc i)
         (segs @ [createSegment cr (l i) (l i) (gspl bits pl i)]) m = Inr (segs', m')"
      by (simp add: Let_def)
    from Suc.IH [OF Suc.prems(1) this] show ?thesis
      by (auto simp: segIsMultiple_def createSegment_def)
  qed
qed

lemma createSegmentsLoop_returns:
  "lo \<noteq> None \<or> up \<noteq> None \<Longrightarrow>
   \<exists>r. createSegmentsLoop gspl cr lo up bits pl n i segs m = Inr r"
  by (induction n arbitrary: i segs m) (auto simp: Let_def split: option.splits)

text \<open>
  C7.  For every section built by \<open>createSegments\<close> from a lower-value provider and an
  optional upper-value provider, the call returns (it panics only when both providers are
  \<open>nil\<close>), it builds \<open>segmentCount\<close> segments, and the \<open>isMultiple\<close> flag it returns is true
  if and only if some segment of the result has an upper value different from its lower
  value.  When no upper-value provider is supplied every segment is single-valued and the
  flag is false.
\<close>

theorem createSegments_isMultiple_iff:
  "(lo \<noteq> None \<or> up \<noteq> None \<longrightarrow>
      (\<exists>segs m. createSegments gspl lo up n bits cr pl = Inr (segs, m))) \<and>
   (\<forall>segs m. createSegments gspl lo up n bits cr pl = Inr (segs, m) \<longrightarrow>
      length segs = n \<and>
      (m \<longleftrightarrow> (\<exists>s \<in> set segs. segIsMultiple s)) \<and>
      (up = None \<longrightarrow> \<not> m \<and> (\<forall>s \<in> set segs. \<not> segIsMultiple s)))"
proof (intro conjI allI impI)
  assume "lo \<noteq> None \<or> up \<noteq> None"
  from createSegmentsLoop_returns [OF this]
  show "\<exists>segs m. createSegments gspl lo up n bits cr pl = Inr (segs, m)"
    unfolding createSegments_def by (metis surj_pair)
next
  fix segs m
  assume r: "createSegments gspl lo up n bits cr pl = Inr (segs, m)"
  then have l: "createSegmentsLoop gspl cr lo up bits pl n 0 [] False = Inr (segs, m)"
    by (simp add: createSegments_def)
  from createSegmentsLoop_isMultiple [OF l]
  show "length segs = n" and "m \<longleftrightarrow> (\<exists>s \<in> set segs. segIsMultiple s)" by simp_all
  assume "up = None"
  then have "up = None \<or> lo = None" by simp
  from createSegmentsLoop_single [OF this l]
  show "\<not> m" and "\<forall>s \<in> set segs. \<not> segIsMultiple s" by simp_all
qed

theorem createSegments_isMultiple_iff_witness:
  "createSegments (\<lambda>b p i. None) (Some (\<lambda>i. [1, 2, 3, 4] ! i))
      (Some (\<lambda>i. [1, 2, 3, 200] ! i)) 4 8 ipv4Type None =
     Inr ([createSegment ipv4Type 1 1 None, createSegment ipv4Type 2 2 None, createSegment ipv4Type 3 3 None,
           createSegment ipv4Type 4 200 None], True) \<and>
   (\<exists>s \<in> set [createSegment ipv4Type 1 1 None, createSegment ipv4Type 2 2 None, createSegment ipv4Type 3 3 None,
           createSegment ipv4Type 4 200 None]. segIsMultiple s) \<and>
   createSegments (\<lambda>b p i. None) (Some (\<lambda>i. [1, 2, 3, 4] ! i)) None 4 8 ipv4Type None =
     Inr ([createSegment ipv4Type 1 1 None, createSegment ipv4Type 2 2 None, createSegment ipv4Type 3 3 None,
           createSegment ipv4Type 4 4 None], False)"
proof -
  have e1: "createSegments (\<lambda>b p i. None) (Some (\<lambda>i. [1, 2, 3, 4] ! i))
      (Some (\<lambda>i. [1, 2, 3, 200] ! i)) 4 8 ipv4Type None =
     Inr ([createSegment ipv4Type 1 1 None, createSegment ipv4Type 2 2 None, createSegment ipv4Type 3 3 None,
           createSegment ipv4Type 4 200 None], True)"
    by (simp add: createSegments_def eval_nat_numeral Let_def)
  have e2: "createSegments (\<lambda>b p i. None) (Some (\<lambda>i. [1, 2, 3, 4] ! i)) None 4 8 ipv4Type None =
     Inr ([createSegment ipv4Type 1 1 None, createSegment ipv4Type 2 2 None, createSegment ipv4Type 3 3 None,
           createSegment ipv4Type 4 4 None], False)"
    by (simp add: createSegments_def eval_nat_numeral Let_def)
  from createSegments_isMultiple_iff
    [of "Some (\<lambda>i. [1, 2, 3, 4] ! i)" "Some (\<lambda>i. [1, 2, 3, 200] ! i)" "\<lambda>b p i. None" 4 8
       ipv4Type None]
    e1
  have "\<exists>s \<in> set [createSegment ipv4Type 1 1 None, createSegment ipv4Type 2 2 None, createSegment ipv4Type 3 3 None,
           createSegment ipv4Type 4 200 None]. segIsMultiple s"
    by simp
  with e1 e2 show ?thesis by simp
qed

subsection \<open>Prefix-mask classification\<close>

lemma checkForPrefixMaskLoop_zeros:
  "\<forall>seg \<in> set segs. segmentValue seg = 0 \<Longrightarrow> checkingHostFront st \<Longrightarrow>
   \<exists>st'. checkForPrefixMaskLoop segCheck maxVal segs i st = Some st' \<and> checkingHostFront st' \<and>
         (segs \<noteq> [] \<longrightarrow> \<not> checkingNetworkFront st')"
proof (induction segs arbitrary: i st)
  case Nil
  then show ?case by simp
next
  case (Cons seg segs)
  have z: "segmentValue seg = 0" and rest: "\<forall>seg \<in> set segs. segmentValue seg = 0"
    using Cons.prems(1) by simp_all
  have keep: "\<And>j (st0::maskCheckState). checkingHostFront st0 \<Longrightarrow> \<not> checkingNetworkFront st0 \<Longrightarrow>
      \<exists>st'. checkForPrefixMaskLoop segCheck maxVal segs j st0 = Some st' \<and>
            checkingHostFront st' \<and> \<not> checkingNetworkFront st'"
  proof -
    fix j and st0 :: maskCheckState
    assume h: "checkingHostFront st0" and n: "\<not> checkingNetworkFront st0"
    from Cons.IH [OF rest h, of j] obtain st' where
      r: "checkForPrefixMaskLoop segCheck maxVal segs j st0 = Some st'" "checkingHostFront st'"
         "segs \<noteq> [] \<longrightarrow> \<not> checkingNetworkFront st'"
      by blast
    show "\<exists>st'. checkForPrefixMaskLoop segCheck maxVal segs j st0 = Some st' \<and>
            checkingHostFront st' \<and> \<not> checkingNetworkFront st'"
    proof (cases segs)
      case Nil
      with h n show ?thesis by simp
    next
      case (Cons a list)
      with r show ?thesis by simp
    qed
  qed
  show ?case
  proof (cases "checkingNetworkFront st")
    case True
    from keep [of "st\<lparr>prefixedSeg := i, checkingNetworkFront := False,
        checkingNetworkBack := True, checkingHostBack := False\<rparr>" "Suc i"] Cons.prems(2)
    show ?thesis using z True by simp
  next
    case False
    from keep [of "st\<lparr>checkingHostBack := False\<rparr>" "Suc i"] Cons.prems(2) False
    show ?thesis using z by simp
  qed
qed

lemma checkForPrefixMaskLoop_ones:
  "\<forall>seg \<in> set segs. segmentValue seg = maxVal \<Longrightarrow> maxVal \<noteq> 0 \<Longrightarrow> checkingNetworkFront st \<Longrightarrow>
   \<exists>st'. checkForPrefixMaskLoop segCheck maxVal segs i st = Some st' \<and> checkingNetworkFront st'"
proof (induction segs arbitrary: i st)
  case Nil
  then show ?case by simp
next
  case (Cons seg segs)
  have m: "segmentValue seg = maxVal" and rest: "\<forall>seg \<in> set segs. segmentValue seg = maxVal"
    using Cons.prems(1) by simp_all
  show ?case
  proof (cases "checkingHostFront st")
    case True
    from Cons.IH [OF rest Cons.prems(2), of "st\<lparr>prefixedSeg := i, checkingHostFront := False,
        checkingHostBack := True, checkingNetworkBack := False\<rparr>" "Suc i"] Cons.prems(3)
    show ?thesis using m True Cons.prems(2) by simp
  next
    case False
    from Cons.IH [OF rest Cons.prems(2), of "st\<lparr>checkingNetworkBack := False\<rparr>" "Suc i"]
      Cons.prems(3)
    show ?thesis using m False Cons.prems(2,3) by simp
  qed
qed

lemma checkForPrefixMaskLoop_fronts:
  "checkForPrefixMaskLoop segCheck maxVal segs i st = Some st' \<Longrightarrow>
   (checkingNetworkFront st' \<longrightarrow>
      checkingNetworkFront st \<and> (\<forall>seg \<in> set segs. segmentValue seg = maxVal \<and> maxVal \<noteq> 0)) \<and>
   (checkingHostFront st' \<longrightarrow>
      checkingHostFront st \<and> (\<forall>seg \<in> set segs. segmentValue seg = 0))"
proof (induction segs arbitrary: i st)
  case Nil
  then show ?case by simp
next
  case (Cons seg segs)
  have step: "\<exists>st1. checkForPrefixMaskLoop segCheck maxVal segs (Suc i) st1 = Some st' \<and>
      (checkingNetworkFront st1 \<longrightarrow>
         checkingNetworkFront st \<and> segmentValue seg = maxVal \<and> maxVal \<noteq> 0) \<and>
      (checkingHostFront st1 \<longrightarrow> checkingHostFront st \<and> segmentValue seg = 0)"
  proof (cases "segmentValue seg = 0")
    case True
    show ?thesis
    proof (cases "checkingNetworkFront st")
      case True
      with \<open>segmentValue seg = 0\<close> Cons.prems show ?thesis
        by (intro exI [of _ "st\<lparr>prefixedSeg := i, checkingNetworkFront := False,
              checkingNetworkBack := True, checkingHostBack := False\<rparr>"]) simp
    next
      case False
      with \<open>segmentValue seg = 0\<close> Cons.prems show ?thesis
        by (intro exI [of _ "st\<lparr>checkingHostBack := False\<rparr>"]) (simp split: if_splits)
    qed
  next
    case False
    note nz = this
    show ?thesis
    proof (cases "segmentValue seg = maxVal")
      case True
      note mx = this
      show ?thesis
      proof (cases "checkingHostFront st")
        case True
        with nz mx Cons.prems show ?thesis
          by (intro exI [of _ "st\<lparr>prefixedSeg := i, checkingHostFront := False,
                checkingHostBack := True, checkingNetworkBack := False\<rparr>"]) auto
      next
        case False
        with nz mx Cons.prems show ?thesis
          by (intro exI [of _ "st\<lparr>checkingNetworkBack := False\<rparr>"]) (auto split: if_splits)
      qed
    next
      case False
      note nm = this
      obtain a b where sc: "segCheck seg = (a, b)" by (cases "segCheck seg")
      show ?thesis
      proof (cases a)
        case None
        note a = this
        show ?thesis
        proof (cases b)
          case None
          with a sc nz nm Cons.prems show ?thesis by simp
        next
          case (Some h)
          with a sc nz nm Cons.prems show ?thesis
            by (intro exI [of _ "st\<lparr>prefixedSegPrefixLen := h, checkingHostBack := True,
                  prefixedSeg := i, checkingNetworkFront := False,
                  checkingHostFront := False\<rparr>"]) (simp split: if_splits)
        qed
      next
        case (Some n)
        with sc nz nm Cons.prems show ?thesis
          by (intro exI [of _ "st\<lparr>prefixedSegPrefixLen := n, checkingNetworkBack := True,
                prefixedSeg := i, checkingNetworkFront := False,
                checkingHostFront := False\<rparr>"]) (simp split: if_splits)
      qed
    qed
  qed
  then obtain st1 where
    rec: "checkForPrefixMaskLoop segCheck maxVal segs (Suc i) st1 = Some st'" and
    nf: "checkingNetworkFront st1 \<longrightarrow>
         checkingNetworkFront st \<and> segmentValue seg = maxVal \<and> maxVal \<noteq> 0" and
    hf: "checkingHostFront st1 \<longrightarrow> checkingHostFront st \<and> segmentValue seg = 0"
    by blast
  from Cons.IH [OF rec] nf hf show ?case by simp
qed

text \<open>
  C4.  On a section with at least one segment whose segment values are all zero,
  \<open>checkForPrefixMask\<close> returns host mask length = total bits and network mask length 0; on
  one whose segment values all equal the largest segment value it returns network mask
  length = total bits and host mask length 0.  On every section, whatever the per-segment
  classifier answers, it never returns a nonzero network mask length together with a
  nonzero host mask length; when it returns both lengths at all, the section is one of the
  two trivial ones (all zeros or all ones).  The result pair is (network, host).
\<close>

theorem checkForPrefixMask_trivial_sections:
  "(divisions sect \<noteq> [] \<and> (\<forall>seg \<in> set (divisions sect). segmentValue seg = 0) \<longrightarrow>
      checkForPrefixMask segCheck gnpl sect = (Some 0, Some (GetBitCount sect))) \<and>
   (divisions sect \<noteq> [] \<and> getMaxValue (divAddrType (divisions sect ! 0)) \<noteq> 0 \<and>
    (\<forall>seg \<in> set (divisions sect). segmentValue seg = getMaxValue (divAddrType (divisions sect ! 0))) \<longrightarrow>
      checkForPrefixMask segCheck gnpl sect = (Some (GetBitCount sect), Some 0)) \<and>
   (\<forall>n h. checkForPrefixMask segCheck gnpl sect = (Some n, Some h) \<longrightarrow>
      (n = 0 \<or> h = 0) \<and>
      ((\<forall>seg \<in> set (divisions sect). segmentValue seg = 0) \<or>
       (\<forall>seg \<in> set (divisions sect). segmentValue seg = getMaxValue (divAddrType (divisions sect ! 0)))))"
proof (intro conjI allI impI)
  let ?init = "\<lparr>checkingNetworkFront = True, checkingHostFront = True,
                 checkingNetworkBack = False, checkingHostBack = False,
                 prefixedSeg = 0, prefixedSegPrefixLen = 0\<rparr>"
  let ?mx = "getMaxValue (divAddrType (divisions sect ! 0))"
  {
    assume a: "divisions sect \<noteq> [] \<and> (\<forall>seg \<in> set (divisions sect). segmentValue seg = 0)"
    then have "\<exists>st'. checkForPrefixMaskLoop segCheck ?mx (divisions sect) 0 ?init = Some st' \<and>
        checkingHostFront st' \<and> (divisions sect \<noteq> [] \<longrightarrow> \<not> checkingNetworkFront st')"
      by (intro checkForPrefixMaskLoop_zeros) simp_all
    with a show "checkForPrefixMask segCheck gnpl sect = (Some 0, Some (GetBitCount sect))"
      by (auto simp: checkForPrefixMask_def GetSegmentCount_def)
  }
  {
    assume a: "divisions sect \<noteq> [] \<and> ?mx \<noteq> 0 \<and>
      (\<forall>seg \<in> set (divisions sect). segmentValue seg = ?mx)"
    then have "\<exists>st'. checkForPrefixMaskLoop segCheck ?mx (divisions sect) 0 ?init = Some st' \<and>
        checkingNetworkFront st'"
      by (intro checkForPrefixMaskLoop_ones) simp_all
    with a show "checkForPrefixMask segCheck gnpl sect = (Some (GetBitCount sect), Some 0)"
      by (auto simp: checkForPrefixMask_def GetSegmentCount_def)
  }
  fix n h
  assume r: "checkForPrefixMask segCheck gnpl sect = (Some n, Some h)"
  then obtain st where
    l: "checkForPrefixMaskLoop segCheck ?mx (divisions sect) 0 ?init = Some st" and
    f: "checkingNetworkFront st \<or> checkingHostFront st"
    by (auto simp: checkForPrefixMask_def split: if_splits option.splits)
  from r l show "n = 0 \<or> h = 0"
    by (auto simp: checkForPrefixMask_def split: if_splits)
  from checkForPrefixMaskLoop_fronts [OF l] f
  show "(\<forall>seg \<in> set (divisions sect). segmentValue seg = 0) \<or>
        (\<forall>seg \<in> set (divisions sect). segmentValue seg = ?mx)"
    by blast
qed

theorem checkForPrefixMask_trivial_sections_witness:
  "checkForPrefixMask (\<lambda>seg. (None, None)) (\<lambda>bits p i. None)
      \<lparr>divisions = [createSegment ipv4Type 0 0 None, createSegment ipv4Type 0 0 None,
                    createSegment ipv4Type 0 0 None, createSegment ipv4Type 0 0 None],
       sectAddrType = ipv4Type, prefixLength = None, isMultiple = False\<rparr> = (Some 0, Some 32) \<and>
   checkForPrefixMask (\<lambda>seg. (None, None)) (\<lambda>bits p i. None)
      \<lparr>divisions = [createSegment ipv4Type 255 255 None, createSegment ipv4Type 255 255 None,
                    createSegment ipv4Type 255 255 None, createSegment ipv4Type 255 255 None],
       sectAddrType = ipv4Type, prefixLength = None, isMultiple = False\<rparr> = (Some 32, Some 0)"
  using checkForPrefixMask_trivial_sections
      [of "\<lparr>divisions = [createSegment ipv4Type 0 0 None, createSegment ipv4Type 0 0 None,
                    createSegment ipv4Type 0 0 None, createSegment ipv4Type 0 0 None],
       sectAddrType = ipv4Type, prefixLength = None, isMultiple = False\<rparr>"
          "\<lambda>seg. (None, None)" "\<lambda>bits p i. None"]
    checkForPrefixMask_trivial_sections
      [of "\<lparr>divisions = [createSegment ipv4Type 255 255 None, createSegment ipv4Type 255 255 None,
                    createSegment ipv4Type 255 255 None, createSegment ipv4Type 255 255 None],
       sectAddrType = ipv4Type, prefixLength = None, isMultiple = False\<rparr>"
          "\<lambda>seg. (None, None)" "\<lambda>bits p i. None"]
  by (simp add: createSegment_def GetBitCount_def GetSegmentCount_def)

subsection \<open>Prefix assignment\<close>

text \<open>
  What \<open>assignPrefix\<close> records, for every requested prefix length and whatever the missing
  helpers do: with \<open>clamped\<close> the request clamped to \<open>[0, boundaryBits]\<close>, a shorter prefix
  length already on the section wins; otherwise the recorded value is the upper clamp for a
  request above \<open>boundaryBits\<close> and the request itself in every other case, also when it
  is negative.
\<close>

lemma assignPrefix_recorded:
  "assignPrefix H (Some p) res singleOnly boundaryBits maxBits = Inr res' \<Longrightarrow>
   prefixLength res' =
     (let clamped = (if p < 0 then 0 else if p > boundaryBits then boundaryBits else p);
          kept = (if p > boundaryBits \<and> 0 \<le> p then boundaryBits else p)
      in case prefixLength res of
           Some sp \<Rightarrow> if divisions res \<noteq> [] \<and> sp < clamped then Some sp else Some kept
         | None \<Rightarrow> Some kept)"
  by (auto simp: assignPrefix_def Let_def split: if_splits option.splits sum.splits)

text \<open>
  For a request that is not negative, on a section with at least one segment, the recorded
  prefix length is the request clamped to \<open>[0, boundaryBits]\<close>, unless the section already
  carries a shorter one, which is then kept.
\<close>

lemma assignPrefix_recorded_nonnegative:
  assumes "assignPrefix H (Some p) res singleOnly boundaryBits maxBits = Inr res'"
    and "0 \<le> p" and "0 \<le> boundaryBits" and "divisions res \<noteq> []"
  shows "prefixLength res' =
     (case prefixLength res of
        Some sp \<Rightarrow> Some (min sp (max 0 (min boundaryBits p)))
      | None \<Rightarrow> Some (max 0 (min boundaryBits p)))"
  using assignPrefix_recorded [OF assms(1)] assms(2-4)
  by (auto simp: Let_def min_def max_def split: option.splits if_splits)

text \<open>
  C3 (the code departs from the claim).  For a negative request \<open>p\<close> on a section that
  carries no prefix length, \<open>assignPrefix\<close> works with \<open>prefLen = 0\<close> but stores the request
  itself: the recorded prefix length is \<open>p\<close>, not the clamped value \<open>0\<close>.
\<close>

theorem assignPrefix_negative_request_recorded:
  "assignPrefix H (Some p) res singleOnly boundaryBits maxBits = Inr res' \<Longrightarrow> p < 0 \<Longrightarrow>
   prefixLength res = None \<Longrightarrow>
   prefixLength res' = Some p \<and> prefixLength res' \<noteq> Some (max 0 (min boundaryBits p))"
  by (auto simp: assignPrefix_def Let_def split: if_splits option.splits sum.splits)

theorem assignPrefix_negative_request_recorded_witness:
  "(\<exists>res'. assignPrefix specHelpers (Some (- 1))
      \<lparr>divisions = [createSegment ipv4Type 1 1 None, createSegment ipv4Type 2 2 None,
                    createSegment ipv4Type 3 3 None, createSegment ipv4Type 4 4 None],
       sectAddrType = ipv4Type, prefixLength = None, isMultiple = False\<rparr> False 32 32 = Inr res' \<and>
      prefixLength res' = Some (- 1))"
proof -
  let ?res = "\<lparr>divisions = [createSegment ipv4Type 1 1 None, createSegment ipv4Type 2 2 None,
                    createSegment ipv4Type 3 3 None, createSegment ipv4Type 4 4 None],
       sectAddrType = ipv4Type, prefixLength = None, isMultiple = False\<rparr>"
  have "\<not> isl (assignPrefix specHelpers (Some (- 1)) ?res False 32 32)"
    by code_simp
  then obtain res' where r: "assignPrefix specHelpers (Some (- 1)) ?res False 32 32 = Inr res'"
    by (cases "assignPrefix specHelpers (Some (- 1)) ?res False 32 32") simp_all
  from assignPrefix_negative_request_recorded [OF r] have "prefixLength res' = Some (- 1)"
    by simp
  with r show ?thesis by blast
qed

text \<open>
  C2.  The IPv4 section \<open>1.2.3.4\<close>, given the requested prefix length 24 by \<open>assignPrefix\<close>,
  has prefix length 24, keeps the single values \<open>1.2.3.4\<close>, is not a prefix block and has
  count 1; \<open>ToPrefixBlock\<close> of the address with that section yields \<open>1.2.3.0-255\<close> with prefix
  length 24, which is a prefix block of count 256.  So a prefix length alone does not make
  a section a prefix block.
\<close>

theorem prefixed_section_not_prefix_block:
  "(case assignPrefix specHelpers (Some 24)
           \<lparr>divisions = [createSegment ipv4Type 1 1 None, createSegment ipv4Type 2 2 None,
                         createSegment ipv4Type 3 3 None, createSegment ipv4Type 4 4 None],
            sectAddrType = ipv4Type, prefixLength = None, isMultiple = False\<rparr> False 32 32 of
      Inl e \<Rightarrow> False
    | Inr s \<Rightarrow>
        prefixLength s = Some 24 \<and> segmentRanges s = [(1, 1), (2, 2), (3, 3), (4, 4)] \<and>
        \<not> IsPrefixBlock s \<and> GetCount s = 1 \<and>
        (case addrSection (ToPrefixBlock_IPv4 \<lparr>addrSection = Some s, zone = NoZone\<rparr>) of
           None \<Rightarrow> False
         | Some b \<Rightarrow>
             prefixLength b = Some 24 \<and> segmentRanges b = [(1, 1), (2, 2), (3, 3), (0, 255)] \<and>
             IsPrefixBlock b \<and> GetCount b = 256))"
  by code_simp

theorem prefixed_section_not_prefix_block_witness:
  "\<exists>s. prefixLength s = Some 24 \<and> \<not> IsPrefixBlock s \<and> GetCount s = 1"
  using prefixed_section_not_prefix_block
  by (auto split: sum.splits)

subsection \<open>The cached address provider\<close>

text \<open>
  C10.  In the exported-\<open>IPType\<close> copy of \<open>cachedAddressProvider\<close>, \<open>getCachedAddresses\<close>
  calls the stored creator only when it is \<open>nil\<close>.  Hence every call either panics on the
  call of a \<open>nil\<close> function value (creator \<open>nil\<close>), or returns \<open>nil\<close> addresses and leaves
  the provider, and so its cache, exactly as it was (creator not \<open>nil\<close>; the creator \<open>g\<close>
  is never run, the result does not depend on it).  A provider with nothing cached therefore
  never gets an address from \<open>getProviderAddress\<close>.
\<close>

theorem getCachedAddresses_never_creates:
  "(addressCreator cached = None \<longrightarrow> getCachedAddresses cached = Inl NilFunctionCall) \<and>
   (\<forall>g. addressCreator cached = Some g \<longrightarrow>
      getCachedAddresses cached = Inr ((None, None), cached)) \<and>
   (address cached = None \<longrightarrow>
      getProviderAddress cached = Inl NilFunctionCall \<or>
      getProviderAddress cached = Inr (None, cached))"
  by (cases "addressCreator cached")
     (simp_all add: getCachedAddresses_def getProviderAddress_def callCreator_def)

theorem getCachedAddresses_never_creates_witness:
  "getCachedAddresses
      \<lparr>addressCreator = None, address = None, hostAddress = None\<rparr> = Inl NilFunctionCall \<and>
   getCachedAddresses
      \<lparr>addressCreator = Some (\<lambda>u. (Some \<lparr>addrSection = None, zone = ''''\<rparr>, None)),
       address = None, hostAddress = None\<rparr> =
     Inr ((None, None),
      \<lparr>addressCreator = Some (\<lambda>u. (Some \<lparr>addrSection = None, zone = ''''\<rparr>, None)),
       address = None, hostAddress = None\<rparr>)"
  using getCachedAddresses_never_creates
      [of "\<lparr>addressCreator = None, address = None, hostAddress = None\<rparr>"]
    getCachedAddresses_never_creates
      [of "\<lparr>addressCreator = Some (\<lambda>u. (Some \<lparr>addrSection = None, zone = ''''\<rparr>, None)),
            address = None, hostAddress = None\<rparr>"]
  by simp

end
